theory Spec2Isabelle
  imports Main "HOL-Library.AList"
begin

section \<open>The SSE client transport (src/client/sse.ts)\<close>

text \<open>
  The transport is a class with seven private fields and three callback slots. Its
  methods are asynchronous: they wait for the auth provider, the auth collaborator and
  \<^verbatim>\<open>fetch\<close>, and the handlers installed on the EventSource run when the platform delivers
  an event. The embedding makes this explicit:
  \<^item> the fields are a record, passed in and returned;
  \<^item> every thrown \<^verbatim>\<open>Error\<close> is a value of \<open>js_error\<close>;
  \<^item> what the awaited collaborators answer is read from an environment of three scripts
    (one answer per call, in call order); a call whose script is empty never settles,
    and the operation that awaits it stays pending;
  \<^item> everything the transport does to the outside (a constructor call of EventSource, a
    \<^verbatim>\<open>fetch\<close>, a call of a collaborator, a call of one of the three callbacks) is appended
    to a list of effects, in program order;
  \<^item> the objects allocated by one run of \<^verbatim>\<open>_startOrAuth\<close> (the EventSource, the
    AbortController and the promise it returns) live in a heap indexed by allocation
    number.
  An operation runs to its end (or to a call that never settles) before the next one is
  looked at: the interleaving of two operations at an \<^verbatim>\<open>await\<close> is not modelled.
  The effect of a callback records the call \<^verbatim>\<open>this.onerror?.(e)\<close> (or \<^verbatim>\<open>onclose\<close>,
  \<^verbatim>\<open>onmessage\<close>): the handler in the slot, if there is one, runs there and returns.
  \<^verbatim>\<open>JSON.stringify\<close> is taken to return.
\<close>

subsection \<open>Errors and platform values\<close>

text \<open>
  The errors the source constructs, by message: \<open>NoAuthProvider\<close> is
  \<^verbatim>\<open>Error("No auth provider")\<close>, \<open>Unauthorized\<close> is \<^verbatim>\<open>Error("Unauthorized")\<close>,
  \<open>AlreadyStarted\<close> is \<^verbatim>\<open>Error("SSEClientTransport already started! ...")\<close>,
  \<open>NotConnected\<close> is \<^verbatim>\<open>Error("Not connected")\<close>, \<open>EndpointOriginMismatch o\<close> is
  \<^verbatim>\<open>Error("Endpoint origin does not match connection origin: " + o)\<close>,
  \<open>SseError code message\<close> is the class of that name, \<open>PostError status text\<close> is
  \<^verbatim>\<open>Error("Error POSTing to endpoint (HTTP " + status + "): " + text)\<close>. \<open>TypeError\<close> is
  what the constructor and the methods of \<^verbatim>\<open>Headers\<close> throw, \<open>Thrown\<close> whatever a
  collaborator or another platform primitive throws.
\<close>

datatype js_error =
    NoAuthProvider
  | Unauthorized
  | AlreadyStarted
  | NotConnected
  | EndpointOriginMismatch string
  | SseError "nat option" "string option"
  | PostError nat "string option"
  | TypeError
  | Thrown string

record url =
  href :: string
  origin :: string

datatype auth_result = AUTHORIZED | REDIRECT

datatype 'a outcome = Returns 'a | Throws js_error

text \<open>A response of \<^verbatim>\<open>fetch\<close>; \<open>body_text\<close> is \<open>None\<close> when reading the body fails
  (\<^verbatim>\<open>response.text().catch(() => null)\<close>).\<close>

record response =
  status :: nat
  body_text :: "string option"

definition ok :: "response \<Rightarrow> bool" where
  "ok r = (200 \<le> status r \<and> status r \<le> 299)"

subsection \<open>Plain objects and Headers\<close>

text \<open>
  A plain string-keyed object is an association list in insertion order.
  \<open>spread a b\<close> is \<^verbatim>\<open>{...a, ...b}\<close>: a key of \<open>b\<close> already in \<open>a\<close> keeps its place and
  takes \<open>b\<close>'s value, a new key is added at the end.
\<close>

type_synonym obj = "(string \<times> string) list"

definition spread :: "obj \<Rightarrow> obj \<Rightarrow> obj" where
  "spread a b = fold (\<lambda>(k, v). AList.update k v) b a"

definition lower_char :: "char \<Rightarrow> char" where
  "lower_char c =
     (case map_of (zip ''ABCDEFGHIJKLMNOPQRSTUVWXYZ'' ''abcdefghijklmnopqrstuvwxyz'') c of
        None \<Rightarrow> c
      | Some l \<Rightarrow> l)"

definition lower :: "string \<Rightarrow> string" where
  "lower s = map lower_char s"

text \<open>
  A \<^verbatim>\<open>Headers\<close> object, as the Fetch standard has it. \<^verbatim>\<open>append\<close> and \<^verbatim>\<open>set\<close> strip
  the tabs, line feeds, carriage returns and spaces at both ends of the value, and throw
  a TypeError unless the name is a token (one or more of the letters, the digits and
  the fifteen marks below) and the stripped value holds no NUL, line feed or carriage
  return. Names are compared without regard to case: they are kept in lower case here.
  \<^verbatim>\<open>append\<close> joins the value to an existing one with a comma and a space, \<^verbatim>\<open>set\<close>
  replaces it. \<^verbatim>\<open>new Headers(o)\<close> appends every entry of the plain object \<open>o\<close> in order
  and throws what \<^verbatim>\<open>append\<close> throws.
\<close>

definition http_whitespace :: "char \<Rightarrow> bool" where
  "http_whitespace c = (c \<in> {CHR 0x09, CHR 0x0A, CHR 0x0D, CHR 0x20})"

definition normalize_value :: "string \<Rightarrow> string" where
  "normalize_value v = rev (dropWhile http_whitespace (rev (dropWhile http_whitespace v)))"

definition tchar :: "char \<Rightarrow> bool" where
  "tchar c =
     (c \<in> set (''abcdefghijklmnopqrstuvwxyzABCDEFGHIJKLMNOPQRSTUVWXYZ0123456789''
               @ ''!#$%&*+-.^_|~'' @ [CHR 0x27, CHR 0x60]))"

definition valid_name :: "string \<Rightarrow> bool" where
  "valid_name k = (k \<noteq> [] \<and> list_all tchar k)"

definition valid_value :: "string \<Rightarrow> bool" where
  "valid_value v = list_all (\<lambda>c. c \<notin> {CHR 0x00, CHR 0x0A, CHR 0x0D}) v"

definition headers_append :: "obj \<Rightarrow> string \<Rightarrow> string \<Rightarrow> js_error + obj" where
  "headers_append h k v =
     (let v' = normalize_value v in
      if valid_name k \<and> valid_value v'
      then Inr (case map_of h (lower k) of
                  None \<Rightarrow> h @ [(lower k, v')]
                | Some old \<Rightarrow> AList.update (lower k) (old @ '', '' @ v') h)
      else Inl TypeError)"

definition headers_set :: "obj \<Rightarrow> string \<Rightarrow> string \<Rightarrow> js_error + obj" where
  "headers_set h k v =
     (let v' = normalize_value v in
      if valid_name k \<and> valid_value v'
      then Inr (AList.update (lower k) v' h)
      else Inl TypeError)"

definition headers_get :: "obj \<Rightarrow> string \<Rightarrow> string option" where
  "headers_get h k = map_of h (lower k)"

fun fill_headers :: "obj \<Rightarrow> obj \<Rightarrow> js_error + obj" where
  "fill_headers [] h = Inr h"
| "fill_headers ((k, v) # entries) h =
     (case headers_append h k v of
        Inl err \<Rightarrow> Inl err
      | Inr h' \<Rightarrow> fill_headers entries h')"

definition new_Headers :: "obj \<Rightarrow> js_error + obj" where
  "new_Headers o_init = fill_headers o_init []"

text \<open>
  A value of the type \<^verbatim>\<open>HeadersInit\<close>: a plain object, a \<^verbatim>\<open>Headers\<close> object or an array
  of name and value pairs. \<open>own_entries\<close> is what the object spread \<^verbatim>\<open>{...x}\<close> copies from
  it, its own enumerable properties: every entry of a plain object; nothing of a
  \<^verbatim>\<open>Headers\<close> object, which keeps its list in an internal slot; of an array the indices
  as keys, each with its pair, which becomes the text \<^verbatim>\<open>name,value\<close> when a header value
  is made of it.
\<close>

datatype headers_init =
    PlainObject obj
  | HeadersObject obj
  | PairArray "(string \<times> string) list"

function dec :: "nat \<Rightarrow> string" where
  "dec n = (if n < 10 then [''0123456789'' ! n] else dec (n div 10) @ [''0123456789'' ! (n mod 10)])"
  by pat_completeness auto
termination
  by (relation "measure (\<lambda>n. n)") auto

declare dec.simps [simp del]

definition own_entries :: "headers_init \<Rightarrow> obj" where
  "own_entries x =
     (case x of
        PlainObject entries \<Rightarrow> entries
      | HeadersObject h \<Rightarrow> []
      | PairArray ps \<Rightarrow> map (\<lambda>(i, (k, v)). (dec i, k @ '','' @ v)) (enumerate 0 ps))"

text \<open>The second argument of \<^verbatim>\<open>fetch\<close>. \<open>fi_signal\<close> is the allocation number of the
  AbortController whose signal is passed; \<open>fi_other\<close> holds every other option.\<close>

record fetch_init =
  fi_method :: "string option"
  fi_headers :: headers_init
  fi_body :: "string option"
  fi_signal :: "nat option"
  fi_other :: obj

text \<open>
  \<^verbatim>\<open>requestInit\<close>, the caller's customisation of the POSTs. The source spreads it and
  then writes \<^verbatim>\<open>method\<close>, \<^verbatim>\<open>headers\<close>, \<^verbatim>\<open>body\<close> and \<^verbatim>\<open>signal\<close> over it, so of these four
  only the caller's headers are read, and they are read by an object spread.
\<close>

record request_init =
  ri_headers :: "headers_init option"
  ri_other :: obj

text \<open>The platform primitives and the message codec, which are not part of the file:
  the constructor \<^verbatim>\<open>new URL(data, base)\<close>, \<^verbatim>\<open>JSONRPCMessageSchema.parse(JSON.parse(data))\<close>
  and \<^verbatim>\<open>JSON.stringify\<close>. The transport never looks into a validated message; it is
  kept as an opaque value, named by a string.\<close>

datatype message = JSONRPCMessage string

record platform =
  new_URL :: "string \<Rightarrow> url \<Rightarrow> js_error + url"
  parse_message :: "string \<Rightarrow> js_error + message"
  stringify :: "message \<Rightarrow> string"

subsection \<open>The transport, its heap, the environment, the effects\<close>

datatype pstate = Pending | Resolved | Rejected js_error

text \<open>
  One run of \<^verbatim>\<open>_startOrAuth\<close> allocates an EventSource, an AbortController and a
  promise; they share one allocation number. \<open>thens\<close> lists the promises that settle as
  this one does: \<^verbatim>\<open>_authThenStart().then(resolve, reject)\<close> in the error handler of an
  older EventSource puts that handler's promise, and those waiting on it, there.
\<close>

record alloc =
  es_closed :: bool
  aborted :: bool
  promise :: pstate
  thens :: "nat list"

datatype es_init = CallerInit string | CommonHeadersFetch

record transport =
  url :: url
  eventSourceInit :: "string option"
  requestInit :: "request_init option"
  authProvider :: "string option"
  eventSource :: "nat option"
  endpoint :: "url option"
  abortController :: "nat option"
  heap :: "alloc list"

record options =
  opt_authProvider :: "string option"
  opt_eventSourceInit :: "string option"
  opt_requestInit :: "request_init option"

definition constructor :: "url \<Rightarrow> options option \<Rightarrow> transport" where
  "constructor u opts =
     \<lparr> url = u,
       eventSourceInit = (case opts of None \<Rightarrow> None | Some os \<Rightarrow> opt_eventSourceInit os),
       requestInit = (case opts of None \<Rightarrow> None | Some os \<Rightarrow> opt_requestInit os),
       authProvider = (case opts of None \<Rightarrow> None | Some os \<Rightarrow> opt_authProvider os),
       eventSource = None, endpoint = None, abortController = None, heap = [] \<rparr>"

text \<open>What the collaborators answer: \<^verbatim>\<open>authProvider.tokens()\<close> (the access token, if
  any), \<^verbatim>\<open>auth(provider, {serverUrl})\<close> and \<^verbatim>\<open>fetch\<close>.\<close>

record env =
  tokens_script :: "string option outcome list"
  auth_script :: "auth_result outcome list"
  fetch_script :: "response outcome list"

datatype effect =
    NewEventSource nat string es_init
  | Fetch string fetch_init
  | CallTokens
  | CallAuth url
  | OnError js_error
  | OnClose
  | OnMessage message

datatype async_result = Throwing js_error | Awaiting nat | Suspended

subsection \<open>Promises\<close>

text \<open>\<^verbatim>\<open>resolve\<close> and \<^verbatim>\<open>reject\<close> of a promise do nothing once it is settled; settling it
  settles, in turn, the promises that wait on it.\<close>

fun settle :: "pstate \<Rightarrow> nat list \<Rightarrow> alloc list \<Rightarrow> alloc list" where
  "settle st [] h = h"
| "settle st (k # ks) h =
     (if k < length h \<and> promise (h ! k) = Pending
      then settle st ks (h[k := (h ! k)\<lparr>promise := st\<rparr>])
      else h)"

definition resolve :: "nat \<Rightarrow> transport \<Rightarrow> transport" where
  "resolve k t = t\<lparr>heap := settle Resolved (k # thens (heap t ! k)) (heap t)\<rparr>"

definition reject :: "nat \<Rightarrow> js_error \<Rightarrow> transport \<Rightarrow> transport" where
  "reject k err t = t\<lparr>heap := settle (Rejected err) (k # thens (heap t ! k)) (heap t)\<rparr>"

definition then_settle :: "nat \<Rightarrow> nat \<Rightarrow> transport \<Rightarrow> transport" where
  "then_settle j k t =
     t\<lparr>heap := (heap t)[j := (heap t ! j)\<lparr>thens := k # thens (heap t ! k)\<rparr>]\<rparr>"

subsection \<open>The methods\<close>

definition commonHeaders ::
  "transport \<Rightarrow> env \<Rightarrow> obj outcome option \<times> effect list \<times> env" where
  "commonHeaders t e =
     (case authProvider t of
        None \<Rightarrow> (Some (Returns []), [], e)
      | Some p \<Rightarrow>
          (case tokens_script e of
             [] \<Rightarrow> (None, [CallTokens], e)
           | Throws err # ts \<Rightarrow> (Some (Throws err), [CallTokens], e\<lparr>tokens_script := ts\<rparr>)
           | Returns None # ts \<Rightarrow> (Some (Returns []), [CallTokens], e\<lparr>tokens_script := ts\<rparr>)
           | Returns (Some tok) # ts \<Rightarrow>
               (Some (Returns [(''Authorization'', ''Bearer '' @ tok)]), [CallTokens],
                e\<lparr>tokens_script := ts\<rparr>)))"

text \<open>The \<^verbatim>\<open>fetch\<close> option the transport gives the EventSource when the caller gave no
  \<^verbatim>\<open>eventSourceInit\<close>: \<^verbatim>\<open>(url, init) => this._commonHeaders().then((headers) =>
  fetch(url, { ...init, headers }))\<close>. The EventSource calls it with its own \<open>init\<close>.\<close>

definition default_fetch ::
  "transport \<Rightarrow> string \<Rightarrow> fetch_init \<Rightarrow> env \<Rightarrow> effect list \<times> env" where
  "default_fetch t u init e =
     (case commonHeaders t e of
        (Some (Returns hs), fx, e') \<Rightarrow> (fx @ [Fetch u (init\<lparr>fi_headers := PlainObject hs\<rparr>)], e')
      | (_, fx, e') \<Rightarrow> (fx, e'))"

definition startOrAuth :: "transport \<Rightarrow> nat \<times> transport \<times> effect list" where
  "startOrAuth t =
     (let k = length (heap t) in
      (k,
       t\<lparr>eventSource := Some k, abortController := Some k,
         heap := heap t @ [\<lparr>es_closed = False, aborted = False, promise = Pending, thens = []\<rparr>]\<rparr>,
       [NewEventSource k (href (url t))
          (case eventSourceInit t of Some c \<Rightarrow> CallerInit c | None \<Rightarrow> CommonHeadersFetch)]))"

definition authThenStart ::
  "transport \<Rightarrow> env \<Rightarrow> async_result \<times> transport \<times> effect list \<times> env" where
  "authThenStart t e =
     (case authProvider t of
        None \<Rightarrow> (Throwing NoAuthProvider, t, [], e)
      | Some p \<Rightarrow>
          (case auth_script e of
             [] \<Rightarrow> (Suspended, t, [CallAuth (url t)], e)
           | Throws err # as \<Rightarrow>
               (Throwing err, t, [CallAuth (url t), OnError err], e\<lparr>auth_script := as\<rparr>)
           | Returns r # as \<Rightarrow>
               (if r \<noteq> AUTHORIZED
                then (Throwing Unauthorized, t, [CallAuth (url t)], e\<lparr>auth_script := as\<rparr>)
                else (case startOrAuth t of
                        (j, t', fx) \<Rightarrow>
                          (Awaiting j, t', CallAuth (url t) # fx, e\<lparr>auth_script := as\<rparr>)))))"

definition close :: "transport \<Rightarrow> transport \<times> effect list" where
  "close t =
     (let h1 = (case abortController t of
                  None \<Rightarrow> heap t
                | Some a \<Rightarrow> (heap t)[a := (heap t ! a)\<lparr>aborted := True\<rparr>]);
          h2 = (case eventSource t of
                  None \<Rightarrow> h1
                | Some s \<Rightarrow> h1[s := (h1 ! s)\<lparr>es_closed := True\<rparr>])
      in (t\<lparr>heap := h2\<rparr>, [OnClose]))"

definition start :: "transport \<Rightarrow> (js_error + nat) \<times> transport \<times> effect list" where
  "start t =
     (case eventSource t of
        Some s \<Rightarrow> (Inl AlreadyStarted, t, [])
      | None \<Rightarrow> (case startOrAuth t of (k, t', fx) \<Rightarrow> (Inr k, t', fx)))"

subsection \<open>The handlers of the EventSource\<close>

datatype es_event =
    ErrorEvent "nat option" "string option"
  | OpenEvent
  | EndpointEvent string
  | MessageEvent string

definition on_error ::
  "transport \<Rightarrow> nat \<Rightarrow> nat option \<Rightarrow> string option \<Rightarrow> env \<Rightarrow> transport \<times> effect list \<times> env" where
  "on_error t k code msg e =
     (if code = Some 401 \<and> authProvider t \<noteq> None
      then (case authThenStart t e of
              (Throwing err, t', fx, e') \<Rightarrow> (reject k err t', fx, e')
            | (Awaiting j, t', fx, e') \<Rightarrow> (then_settle j k t', fx, e')
            | (Suspended, t', fx, e') \<Rightarrow> (t', fx, e'))
      else (let err = SseError code msg in (reject k err t, [OnError err], e)))"

definition on_endpoint ::
  "platform \<Rightarrow> transport \<Rightarrow> nat \<Rightarrow> string \<Rightarrow> transport \<times> effect list" where
  "on_endpoint P t k d =
     (case new_URL P d (url t) of
        Inl err \<Rightarrow>
          (case close (reject k err t) of (t', fx) \<Rightarrow> (t', OnError err # fx))
      | Inr u \<Rightarrow>
          (let t1 = t\<lparr>endpoint := Some u\<rparr> in
           if origin u \<noteq> origin (url t)
           then (let err = EndpointOriginMismatch (origin u) in
                 case close (reject k err t1) of (t', fx) \<Rightarrow> (t', OnError err # fx))
           else (resolve k t1, [])))"

definition on_message :: "platform \<Rightarrow> string \<Rightarrow> effect list" where
  "on_message P d =
     (case parse_message P d of
        Inl err \<Rightarrow> [OnError err]
      | Inr m \<Rightarrow> [OnMessage m])"

text \<open>The platform delivers an event of the EventSource with allocation number \<open>k\<close>;
  an EventSource that was never constructed delivers nothing.\<close>

definition dispatch ::
  "platform \<Rightarrow> transport \<Rightarrow> nat \<Rightarrow> es_event \<Rightarrow> env \<Rightarrow> transport \<times> effect list \<times> env" where
  "dispatch P t k ev e =
     (if k < length (heap t)
      then (case ev of
              ErrorEvent code msg \<Rightarrow> on_error t k code msg e
            | OpenEvent \<Rightarrow> (t, [], e)
            | EndpointEvent d \<Rightarrow> (case on_endpoint P t k d of (t', fx) \<Rightarrow> (t', fx, e))
            | MessageEvent d \<Rightarrow> (t, on_message P d, e))
      else (t, [], e))"

text \<open>A sequence of events, each with the EventSource that delivers it.\<close>

fun dispatch_all ::
  "platform \<Rightarrow> transport \<Rightarrow> (nat \<times> es_event) list \<Rightarrow> env \<Rightarrow> transport \<times> effect list \<times> env" where
  "dispatch_all P t [] e = (t, [], e)"
| "dispatch_all P t ((k, ev) # evs) e =
     (case dispatch P t k ev e of
        (t1, fx1, e1) \<Rightarrow>
          (case dispatch_all P t1 evs e1 of (t2, fx2, e2) \<Rightarrow> (t2, fx1 @ fx2, e2)))"

subsection \<open>send\<close>

text \<open>\<open>caller_entries\<close> is what \<^verbatim>\<open>...this._requestInit?.headers\<close> copies;
  \<open>request_headers\<close> is \<^verbatim>\<open>new Headers({ ...commonHeaders, ...this._requestInit?.headers })\<close>
  followed by \<^verbatim>\<open>headers.set("content-type", "application/json")\<close>.\<close>

definition caller_entries :: "transport \<Rightarrow> obj" where
  "caller_entries t =
     (case requestInit t of
        None \<Rightarrow> []
      | Some ri \<Rightarrow> (case ri_headers ri of None \<Rightarrow> [] | Some x \<Rightarrow> own_entries x))"

definition request_headers :: "transport \<Rightarrow> obj \<Rightarrow> js_error + obj" where
  "request_headers t common =
     (case new_Headers (spread common (caller_entries t)) of
        Inl err \<Rightarrow> Inl err
      | Inr h \<Rightarrow> headers_set h ''content-type'' ''application/json'')"

definition post_init :: "platform \<Rightarrow> transport \<Rightarrow> obj \<Rightarrow> message \<Rightarrow> fetch_init" where
  "post_init P t headers m =
     \<lparr> fi_method = Some ''POST'',
       fi_headers = HeadersObject headers,
       fi_body = Some (stringify P m),
       fi_signal = abortController t,
       fi_other = (case requestInit t of None \<Rightarrow> [] | Some ri \<Rightarrow> ri_other ri) \<rparr>"

lemma commonHeaders_fetch_script:
  "commonHeaders t e = (r, fx, e') \<Longrightarrow> fetch_script e' = fetch_script e"
  by (auto simp: commonHeaders_def split: option.splits list.splits outcome.splits)

function send ::
  "platform \<Rightarrow> transport \<Rightarrow> message \<Rightarrow> env \<Rightarrow> pstate \<times> effect list \<times> env" where
  "send P t m e =
     (case endpoint t of
        None \<Rightarrow> (Rejected NotConnected, [], e)
      | Some ep \<Rightarrow>
          (case commonHeaders t e of
             (None, fx, e1) \<Rightarrow> (Pending, fx, e1)
           | (Some (Throws err), fx, e1) \<Rightarrow> (Rejected err, fx @ [OnError err], e1)
           | (Some (Returns common), fx, e1) \<Rightarrow>
               (case request_headers t common of
                  Inl err \<Rightarrow> (Rejected err, fx @ [OnError err], e1)
                | Inr headers \<Rightarrow>
               (let post = Fetch (href ep) (post_init P t headers m) in
                case fetch_script e1 of
                  [] \<Rightarrow> (Pending, fx @ [post], e1)
                | Throws err # rs \<Rightarrow>
                    (Rejected err, fx @ [post, OnError err], e1\<lparr>fetch_script := rs\<rparr>)
                | Returns resp # rs \<Rightarrow>
                    (if \<not> ok resp
                     then (if status resp = 401 \<and> authProvider t \<noteq> None
                           then (case auth_script e1 of
                                   [] \<Rightarrow>
                                     (Pending, fx @ [post, CallAuth (url t)],
                                      e1\<lparr>fetch_script := rs\<rparr>)
                                 | Throws err # as \<Rightarrow>
                                     (Rejected err, fx @ [post, CallAuth (url t), OnError err],
                                      e1\<lparr>fetch_script := rs, auth_script := as\<rparr>)
                                 | Returns r # as \<Rightarrow>
                                     (if r \<noteq> AUTHORIZED
                                      then (Rejected Unauthorized,
                                            fx @ [post, CallAuth (url t), OnError Unauthorized],
                                            e1\<lparr>fetch_script := rs, auth_script := as\<rparr>)
                                      else (case send P t m (e1\<lparr>fetch_script := rs, auth_script := as\<rparr>) of
                                              (res, fx', e') \<Rightarrow>
                                                (res, fx @ [post, CallAuth (url t)] @ fx', e'))))
                           else (let err = PostError (status resp) (body_text resp) in
                                 (Rejected err, fx @ [post, OnError err],
                                  e1\<lparr>fetch_script := rs\<rparr>)))
                     else (Resolved, fx @ [post], e1\<lparr>fetch_script := rs\<rparr>))))))"
  by pat_completeness auto
termination
  by (relation "measure (\<lambda>(P, t, m, e). length (fetch_script e))")
     (auto dest: commonHeaders_fetch_script [OF sym])

declare send.simps [simp del]

subsection \<open>A platform, transports and an environment for the examples\<close>

text \<open>
  A stand-in for the platform on the payloads of the examples. Of addresses it knows
  \<^item> the empty reference, which is the base;
  \<^item> an absolute \<^verbatim>\<open>http\<close> or \<^verbatim>\<open>https\<close> address with a host of lower-case letters and
    dots, without a port, and with a path (of lower-case letters, digits, slashes,
    hyphens and underscores) or none: its origin is the scheme and the host, and a
    missing path is \<^verbatim>\<open>/\<close>;
  \<^item> a reference that starts with two slashes: the scheme of the base and then the
    host and the path of the reference, as before;
  \<^item> a reference that starts with one slash: such a path on the base's origin;
  and it throws for every other payload, also where the platform would resolve it. Of
  messages it knows the notifications without parameters, written without white space
  and with a method name of letters and slashes, \<^verbatim>\<open>{"jsonrpc":"2.0","method":"ping"}\<close>;
  for every other payload it throws, also where the codec would accept it.
\<close>

definition split_authority :: "string \<Rightarrow> string \<times> string" where
  "split_authority s =
     (takeWhile (\<lambda>c. c \<notin> set ''/?#'') s, dropWhile (\<lambda>c. c \<notin> set ''/?#'') s)"

definition ex_absolute :: "string \<Rightarrow> string \<Rightarrow> js_error + url" where
  "ex_absolute scheme rest =
     (case split_authority rest of
        (host, path) \<Rightarrow>
          if host \<noteq> [] \<and> take 1 host \<noteq> ''.''
            \<and> list_all (\<lambda>c. c \<in> set ''abcdefghijklmnopqrstuvwxyz.'') host
            \<and> (path = [] \<or> take 1 path = ''/'')
            \<and> list_all (\<lambda>c. c \<in> set ''abcdefghijklmnopqrstuvwxyz0123456789/-_'') path
          then Inr \<lparr>href = scheme @ ''://'' @ host @ (if path = [] then ''/'' else path),
                    origin = scheme @ ''://'' @ host\<rparr>
          else Inl (Thrown ''TypeError: Invalid URL''))"

definition ex_new_URL :: "string \<Rightarrow> url \<Rightarrow> js_error + url" where
  "ex_new_URL d b =
     (if d = [] then Inr b
      else if take 8 d = ''https://'' then ex_absolute ''https'' (drop 8 d)
      else if take 7 d = ''http://'' then ex_absolute ''http'' (drop 7 d)
      else if take 2 d = ''//'' then ex_absolute (takeWhile (\<lambda>c. c \<noteq> CHR '':'') (origin b)) (drop 2 d)
      else if take 1 d = ''/''
        \<and> list_all (\<lambda>c. c \<in> set ''abcdefghijklmnopqrstuvwxyz0123456789/-_'') d
        then Inr \<lparr>href = origin b @ d, origin = origin b\<rparr>
      else Inl (Thrown ''TypeError: Invalid URL''))"

definition ex_notification :: "string \<Rightarrow> string" where
  "ex_notification method =
     ''{'' @ [CHR 0x22] @ ''jsonrpc'' @ [CHR 0x22] @ '':'' @ [CHR 0x22] @ ''2.0'' @ [CHR 0x22]
     @ '','' @ [CHR 0x22] @ ''method'' @ [CHR 0x22] @ '':'' @ [CHR 0x22] @ method @ [CHR 0x22]
     @ ''}''"

definition ex_parse :: "string \<Rightarrow> js_error + message" where
  "ex_parse d =
     (let method = take (length d - 29) (drop 27 d) in
      if d = ex_notification method
        \<and> method \<noteq> [] \<and> list_all (\<lambda>c. c \<in> set ''abcdefghijklmnopqrstuvwxyz/'') method
      then Inr (JSONRPCMessage d)
      else Inl (Thrown ''SyntaxError''))"

definition ex_platform :: "platform" where
  "ex_platform =
     \<lparr> new_URL = ex_new_URL,
       parse_message = ex_parse,
       stringify = (\<lambda>m. case m of JSONRPCMessage d \<Rightarrow> d) \<rparr>"

definition ex_url :: url where
  "ex_url = \<lparr>href = ''https://example.com/sse'', origin = ''https://example.com''\<rparr>"

definition ex_idle :: transport where
  "ex_idle =
     constructor ex_url
       (Some \<lparr>opt_authProvider = Some ''provider'', opt_eventSourceInit = None,
              opt_requestInit =
                Some \<lparr>ri_headers =
                        Some (PlainObject [(''X-Trace'', '' 1 ''), (''Content-Type'', ''text/plain'')]),
                      ri_other = [(''credentials'', ''include'')]\<rparr>\<rparr>)"

definition ex_env :: env where
  "ex_env =
     \<lparr> tokens_script = [Returns (Some ''t1''), Returns (Some ''t2'')],
       auth_script = [Returns AUTHORIZED],
       fetch_script = [Returns \<lparr>status = 401, body_text = None\<rparr>,
                       Returns \<lparr>status = 200, body_text = Some ''accepted''\<rparr>] \<rparr>"

definition ex_env_twice :: env where
  "ex_env_twice =
     \<lparr> tokens_script = [Returns (Some ''t1''), Returns (Some ''t2''), Returns (Some ''t3'')],
       auth_script = [Returns AUTHORIZED, Returns AUTHORIZED],
       fetch_script = [Returns \<lparr>status = 401, body_text = None\<rparr>,
                       Returns \<lparr>status = 401, body_text = None\<rparr>,
                       Returns \<lparr>status = 204, body_text = Some []\<rparr>] \<rparr>"

definition ex_ping :: message where
  "ex_ping = JSONRPCMessage (ex_notification ''ping'')"

definition ex_started :: transport where
  "ex_started = fst (snd (start ex_idle))"

definition ex_open :: transport where
  "ex_open = fst (dispatch ex_platform ex_started 0 (EndpointEvent ''/messages'') ex_env)"

definition ex_reconnecting :: transport where
  "ex_reconnecting =
     fst (dispatch ex_platform ex_started 0 (ErrorEvent (Some 401) None) ex_env)"



definition ex_open_reconnecting :: transport where
  "ex_open_reconnecting =
     fst (dispatch ex_platform ex_open 0 (ErrorEvent (Some 401) None) ex_env)"

subsection \<open>Promises that settle together\<close>


section \<open>Properties\<close>

subsection \<open>close\<close>

lemma abort_twice:
  "h[a := (h[a := (h ! a)\<lparr>aborted := True\<rparr>] ! a)\<lparr>aborted := True\<rparr>]
     = h[a := (h ! a)\<lparr>aborted := True\<rparr>]"
  by (cases "a < length h") (simp_all add: list_update_beyond not_less)

lemma es_close_twice:
  "h[s := (h[s := (h ! s)\<lparr>es_closed := True\<rparr>] ! s)\<lparr>es_closed := True\<rparr>]
     = h[s := (h ! s)\<lparr>es_closed := True\<rparr>]"
  by (cases "s < length h") (simp_all add: list_update_beyond not_less)

lemma close_heap_twice:
  fixes h :: "alloc list" and a s :: nat
  defines "h1 \<equiv> h[a := (h ! a)\<lparr>aborted := True\<rparr>]"
  defines "h2 \<equiv> h1[s := (h1 ! s)\<lparr>es_closed := True\<rparr>]"
  defines "h3 \<equiv> h2[a := (h2 ! a)\<lparr>aborted := True\<rparr>]"
  shows "h3[s := (h3 ! s)\<lparr>es_closed := True\<rparr>] = h2"
  unfolding h1_def h2_def h3_def
  by (cases "a < length h"; cases "s < length h"; cases "a = s")
     (simp_all add: list_eq_iff_nth_eq nth_list_update)

text \<open>
  C4, as stated, fails: \<^verbatim>\<open>close()\<close> has no guard, so the close callback runs at every
  call. On a started transport, two calls in succession run it twice.
\<close>

theorem close_twice_counterexample:
  "count_list (snd (close ex_started) @ snd (close (fst (close ex_started)))) OnClose = 2"
  by (simp add: close_def Let_def)

text \<open>
  C4, amended: every call of \<^verbatim>\<open>close()\<close>, in whatever state the transport is (never
  started, started, already closed), runs the close callback exactly once and nothing
  else; a second call in succession leaves the transport as the first call left it.
\<close>

theorem close_fires_each_time:
  "snd (close t) = [OnClose] \<and>
   snd (close (fst (close t))) = [OnClose] \<and>
   fst (close (fst (close t))) = fst (close t)"
  using close_heap_twice
  by (auto simp: close_def Let_def abort_twice es_close_twice split: option.splits)

subsection \<open>Promises, close and the concrete transports\<close>

lemma settle_length [simp]: "length (settle st ks h) = length h"
  by (induction ks arbitrary: h) auto

lemma settle_es_closed [simp]: "es_closed (settle st ks h ! i) = es_closed (h ! i)"
  by (induction ks arbitrary: h) (simp_all add: nth_list_update)

lemma settle_aborted [simp]: "aborted (settle st ks h ! i) = aborted (h ! i)"
  by (induction ks arbitrary: h) (simp_all add: nth_list_update)

lemma settle_thens [simp]: "thens (settle st ks h ! i) = thens (h ! i)"
  by (induction ks arbitrary: h) (simp_all add: nth_list_update)


lemma settle_untouched:
  "i \<notin> set ks \<Longrightarrow> settle st ks h ! i = h ! i"
  by (induction ks arbitrary: h) (simp_all add: nth_list_update)


lemma close_effects [simp]: "snd (close t) = [OnClose]"
  by (simp add: close_def Let_def)

lemma close_fields [simp]:
  "url (fst (close t)) = url t"
  "eventSource (fst (close t)) = eventSource t"
  "abortController (fst (close t)) = abortController t"
  "endpoint (fst (close t)) = endpoint t"
  "authProvider (fst (close t)) = authProvider t"
  "length (heap (fst (close t))) = length (heap t)"
  by (simp_all add: close_def Let_def split: option.splits)

lemma close_promise [simp]: "promise (heap (fst (close t)) ! j) = promise (heap t ! j)"
proof -
  have upd: "\<And>(h :: alloc list) a f. promise (f (h ! a)) = promise (h ! a) \<Longrightarrow>
      promise (h[a := f (h ! a)] ! j) = promise (h ! j)"
    subgoal for h a f
      by (cases "a < length h") (auto simp: nth_list_update list_update_beyond not_less)
    done
  show ?thesis
    by (simp add: close_def Let_def upd split: option.splits)
qed


lemma startOrAuth_simps [simp]:
  "fst (startOrAuth t) = length (heap t)"
  "snd (snd (startOrAuth t)) =
     [NewEventSource (length (heap t)) (href (url t))
        (case eventSourceInit t of Some c \<Rightarrow> CallerInit c | None \<Rightarrow> CommonHeadersFetch)]"
  "fst (snd (startOrAuth t)) =
     t\<lparr>eventSource := Some (length (heap t)), abortController := Some (length (heap t)),
       heap := heap t @ [\<lparr>es_closed = False, aborted = False, promise = Pending, thens = []\<rparr>]\<rparr>"
  by (simp_all add: startOrAuth_def Let_def)

lemma ex_idle_eq:
  "ex_idle = \<lparr> url = ex_url, eventSourceInit = None,
      requestInit =
        Some \<lparr>ri_headers =
                Some (PlainObject [(''X-Trace'', '' 1 ''), (''Content-Type'', ''text/plain'')]),
              ri_other = [(''credentials'', ''include'')]\<rparr>,
      authProvider = Some ''provider'', eventSource = None, endpoint = None,
      abortController = None, heap = [] \<rparr>"
  by (simp add: ex_idle_def constructor_def)

lemma ex_started_eq:
  "ex_started = ex_idle\<lparr> eventSource := Some 0, abortController := Some 0,
      heap := [\<lparr>es_closed = False, aborted = False, promise = Pending, thens = []\<rparr>] \<rparr>"
  by (simp add: ex_started_def start_def startOrAuth_def ex_idle_eq)

lemma ex_reconnecting_eq:
  "ex_reconnecting = ex_idle\<lparr> eventSource := Some 1, abortController := Some 1,
      heap := [\<lparr>es_closed = False, aborted = False, promise = Pending, thens = []\<rparr>,
               \<lparr>es_closed = False, aborted = False, promise = Pending, thens = [0]\<rparr>] \<rparr>"
  by (simp add: ex_reconnecting_def ex_started_eq ex_idle_eq dispatch_def on_error_def
      authThenStart_def startOrAuth_def then_settle_def ex_env_def)

lemma ex_url_sel [simp]:
  "href ex_url = ''https://example.com/sse''" "origin ex_url = ''https://example.com''"
  by (simp_all add: ex_url_def)

lemma ex_addresses:
  "new_URL ex_platform ''/messages'' ex_url
     = Inr \<lparr>href = ''https://example.com/messages'', origin = ''https://example.com''\<rparr>"
  "new_URL ex_platform ''https://evil.example/in'' ex_url
     = Inr \<lparr>href = ''https://evil.example/in'', origin = ''https://evil.example''\<rparr>"
  by (simp_all add: ex_platform_def ex_new_URL_def ex_absolute_def split_authority_def ex_url_def)

lemma ex_messages:
  "parse_message ex_platform (ex_notification ''ping'')
     = Inr (JSONRPCMessage (ex_notification ''ping''))"
  "parse_message ex_platform (ex_notification ''tools/list'')
     = Inr (JSONRPCMessage (ex_notification ''tools/list''))"
  "parse_message ex_platform (ex_notification ''initialized'')
     = Inr (JSONRPCMessage (ex_notification ''initialized''))"
  "parse_message ex_platform ''{'' = Inl (Thrown ''SyntaxError'')"
  "stringify ex_platform ex_ping = ex_notification ''ping''"
  by (simp_all add: ex_platform_def ex_parse_def ex_notification_def ex_ping_def)

lemma ex_open_eq:
  "ex_open = ex_idle\<lparr> eventSource := Some 0, abortController := Some 0,
      endpoint := Some \<lparr>href = ''https://example.com/messages'', origin = ''https://example.com''\<rparr>,
      heap := [\<lparr>es_closed = False, aborted = False, promise = Resolved, thens = []\<rparr>] \<rparr>"
  by (simp add: ex_open_def ex_started_eq ex_idle_eq dispatch_def on_endpoint_def resolve_def
      ex_addresses Let_def)

lemma ex_open_reconnecting_eq:
  "ex_open_reconnecting = ex_idle\<lparr> eventSource := Some 1, abortController := Some 1,
      endpoint := Some \<lparr>href = ''https://example.com/messages'', origin = ''https://example.com''\<rparr>,
      heap := [\<lparr>es_closed = False, aborted = False, promise = Resolved, thens = []\<rparr>,
               \<lparr>es_closed = False, aborted = False, promise = Pending, thens = [0]\<rparr>] \<rparr>"
  by (simp add: ex_open_reconnecting_def ex_open_eq ex_idle_eq dispatch_def on_error_def
      authThenStart_def startOrAuth_def then_settle_def ex_env_def)

lemma ex_open_sel:
  "endpoint ex_open
     = Some \<lparr>href = ''https://example.com/messages'', origin = ''https://example.com''\<rparr>"
  "authProvider ex_open = Some ''provider''"
  "abortController ex_open = Some 0"
  "eventSourceInit ex_open = None"
  "url ex_open = ex_url"
  "requestInit ex_open
     = Some \<lparr>ri_headers =
               Some (PlainObject [(''X-Trace'', '' 1 ''), (''Content-Type'', ''text/plain'')]),
             ri_other = [(''credentials'', ''include'')]\<rparr>"
  by (simp_all add: ex_open_eq ex_idle_eq)

lemma ex_open_reconnecting_sel:
  "endpoint ex_open_reconnecting
     = Some \<lparr>href = ''https://example.com/messages'', origin = ''https://example.com''\<rparr>"
  "authProvider ex_open_reconnecting = Some ''provider''"
  "abortController ex_open_reconnecting = Some 1"
  "url ex_open_reconnecting = ex_url"
  "requestInit ex_open_reconnecting
     = Some \<lparr>ri_headers =
               Some (PlainObject [(''X-Trace'', '' 1 ''), (''Content-Type'', ''text/plain'')]),
             ri_other = [(''credentials'', ''include'')]\<rparr>"
  by (simp_all add: ex_open_reconnecting_eq ex_idle_eq)

lemma content_type_set:
  "headers_set h ''content-type'' ''application/json''
     = Inr (AList.update ''content-type'' ''application/json'' h)"
  by (simp add: headers_set_def normalize_value_def http_whitespace_def valid_name_def
      valid_value_def tchar_def lower_def lower_char_def)

lemma ex_request_headers:
  "request_headers ex_open []
     = Inr [(''x-trace'', ''1''), (''content-type'', ''application/json'')]"
  "request_headers ex_open [(''Authorization'', ''Bearer t1'')]
     = Inr [(''authorization'', ''Bearer t1''), (''x-trace'', ''1''),
            (''content-type'', ''application/json'')]"
  "request_headers ex_open [(''Authorization'', ''Bearer t2'')]
     = Inr [(''authorization'', ''Bearer t2''), (''x-trace'', ''1''),
            (''content-type'', ''application/json'')]"
  "request_headers ex_open [(''Authorization'', ''Bearer t3'')]
     = Inr [(''authorization'', ''Bearer t3''), (''x-trace'', ''1''),
            (''content-type'', ''application/json'')]"
  "request_headers ex_open_reconnecting []
     = Inr [(''x-trace'', ''1''), (''content-type'', ''application/json'')]"
  by (simp_all add: request_headers_def caller_entries_def own_entries_def ex_open_eq
      ex_open_reconnecting_eq ex_idle_eq spread_def new_Headers_def headers_append_def
      content_type_set normalize_value_def http_whitespace_def valid_name_def valid_value_def
      tchar_def lower_def lower_char_def Let_def)

subsection \<open>The endpoint event\<close>



subsection \<open>The channel error with status 401\<close>





lemma close_thens [simp]: "thens (heap (fst (close t)) ! i) = thens (heap t ! i)"
proof -
  have upd: "\<And>(h :: alloc list) a f. thens (f (h ! a)) = thens (h ! a) \<Longrightarrow>
      thens (h[a := f (h ! a)] ! i) = thens (h ! i)"
    subgoal for h a f
      by (cases "a < length h") (auto simp: nth_list_update list_update_beyond not_less)
    done
  show ?thesis
    by (simp add: close_def Let_def upd split: option.splits)
qed










subsection \<open>send before an endpoint is stored\<close>

text \<open>
  C5, as stated, fails. The transport stores one endpoint and never clears it; there is
  no record of which EventSource it came from. Below, EventSource 0 delivers the
  endpoint, then reports a 401; after the authorization EventSource 1 is the current
  one, its promise is pending and it has delivered no endpoint. A \<^verbatim>\<open>send\<close> at that
  moment is not rejected with NotConnected: it POSTs to the endpoint of EventSource 0,
  and resolves.
\<close>

theorem send_stale_endpoint_counterexample:
  "dispatch_all ex_platform ex_started
     [(0, EndpointEvent ''/messages''), (0, ErrorEvent (Some 401) None)] ex_env
     = (ex_open_reconnecting,
        [CallAuth ex_url, NewEventSource 1 ''https://example.com/sse'' CommonHeadersFetch],
        ex_env\<lparr>auth_script := []\<rparr>) \<and>
   eventSource ex_open_reconnecting = Some 1 \<and>
   promise (heap ex_open_reconnecting ! 1) = Pending \<and>
   send ex_platform ex_open_reconnecting ex_ping
     \<lparr>tokens_script = [Returns None], auth_script = [],
       fetch_script = [Returns \<lparr>status = 202, body_text = Some ''Accepted''\<rparr>]\<rparr>
     = (Resolved,
        [CallTokens,
         Fetch ''https://example.com/messages''
           \<lparr>fi_method = Some ''POST'',
             fi_headers = HeadersObject
               [(''x-trace'', ''1''), (''content-type'', ''application/json'')],
             fi_body = Some (ex_notification ''ping''), fi_signal = Some 1,
             fi_other = [(''credentials'', ''include'')]\<rparr>],
        \<lparr>tokens_script = [], auth_script = [], fetch_script = []\<rparr>)"
proof -
  have run: "dispatch_all ex_platform ex_started
     [(0, EndpointEvent ''/messages''), (0, ErrorEvent (Some 401) None)] ex_env
     = (ex_open_reconnecting,
        [CallAuth ex_url, NewEventSource 1 ''https://example.com/sse'' CommonHeadersFetch],
        ex_env\<lparr>auth_script := []\<rparr>)"
    by (simp add: ex_open_reconnecting_eq ex_started_eq ex_idle_eq ex_env_def
        ex_addresses dispatch_def on_endpoint_def on_error_def
        authThenStart_def startOrAuth_def then_settle_def resolve_def)
  have now: "eventSource ex_open_reconnecting = Some 1"
      "promise (heap ex_open_reconnecting ! 1) = Pending"
    by (simp_all add: ex_open_reconnecting_eq)
  have post: "send ex_platform ex_open_reconnecting ex_ping
     \<lparr>tokens_script = [Returns None], auth_script = [],
       fetch_script = [Returns \<lparr>status = 202, body_text = Some ''Accepted''\<rparr>]\<rparr>
     = (Resolved,
        [CallTokens,
         Fetch ''https://example.com/messages''
           \<lparr>fi_method = Some ''POST'',
             fi_headers = HeadersObject
               [(''x-trace'', ''1''), (''content-type'', ''application/json'')],
             fi_body = Some (ex_notification ''ping''), fi_signal = Some 1,
             fi_other = [(''credentials'', ''include'')]\<rparr>],
        \<lparr>tokens_script = [], auth_script = [], fetch_script = []\<rparr>)"
    by (subst send.simps)
       (simp add: ex_open_reconnecting_sel ex_request_headers commonHeaders_def post_init_def
          ok_def ex_messages)
  show ?thesis
    using run now post by (simp only: simp_thms)
qed

text \<open>
  C5, amended: while no endpoint is stored in the transport, \<^verbatim>\<open>send\<close> is rejected with
  NotConnected, before any call of the provider or of \<^verbatim>\<open>fetch\<close> and without a call of a
  callback; it reads the transport and changes nothing.
\<close>

theorem send_without_endpoint:
  assumes "endpoint t = None"
  shows "send P t m e = (Rejected NotConnected, [], e)"
  using assms by (simp add: send.simps)

text \<open>The theorem at the reconnecting transport, which has no endpoint yet.\<close>

theorem send_without_endpoint_witness:
  "endpoint ex_reconnecting = None \<and>
   send ex_platform ex_reconnecting ex_ping ex_env
     = (Rejected NotConnected, [], ex_env)"
  using send_without_endpoint [of ex_reconnecting ex_platform ex_ping ex_env]
  by (simp add: ex_reconnecting_eq ex_idle_eq)

subsection \<open>start\<close>

lemma reject_fields [simp]:
  "eventSource (reject k err t) = eventSource t"
  "length (heap (reject k err t)) = length (heap t)"
  "url (reject k err t) = url t"
  "authProvider (reject k err t) = authProvider t"
  "endpoint (reject k err t) = endpoint t"
  by (simp_all add: reject_def)

lemma resolve_fields [simp]:
  "eventSource (resolve k t) = eventSource t"
  "length (heap (resolve k t)) = length (heap t)"
  "url (resolve k t) = url t"
  "authProvider (resolve k t) = authProvider t"
  "endpoint (resolve k t) = endpoint t"
  by (simp_all add: resolve_def)

lemma dispatch_keeps_started:
  "eventSource t \<noteq> None \<Longrightarrow> eventSource (fst (dispatch P t k ev e)) \<noteq> None"
  by (cases ev)
     (auto simp: dispatch_def on_error_def on_endpoint_def authThenStart_def Let_def
        startOrAuth_def then_settle_def case_prod_beta
        split: option.splits list.splits outcome.splits sum.splits)

lemma dispatch_all_keeps_started:
  "eventSource t \<noteq> None \<Longrightarrow> eventSource (fst (dispatch_all P t evs e)) \<noteq> None"
proof (induction evs arbitrary: t e)
  case Nil
  then show ?case by simp
next
  case (Cons kev evs)
  obtain k ev where kev: "kev = (k, ev)" by (cases kev)
  obtain t1 fx1 e1 where d: "dispatch P t k ev e = (t1, fx1, e1)" by (cases "dispatch P t k ev e")
  have "eventSource t1 \<noteq> None"
    using dispatch_keeps_started [OF Cons.prems, of P k ev e] by (simp add: d)
  from Cons.IH [OF this, of e1] show ?case
    by (simp add: kev d case_prod_beta)
qed

text \<open>
  C6: on a transport that has no EventSource, \<^verbatim>\<open>start()\<close> constructs one to the target
  address, makes it the current one and returns its pending promise. From then on,
  whatever events the EventSources deliver and also after \<^verbatim>\<open>close()\<close>, \<^verbatim>\<open>start()\<close>
  is rejected with AlreadyStarted, constructs nothing and changes nothing. In general
  \<^verbatim>\<open>start()\<close> is so rejected whenever the transport has an EventSource.
\<close>

theorem start_guard:
  "(eventSource t = None \<longrightarrow>
      start t =
        (Inr (length (heap t)),
         t\<lparr>eventSource := Some (length (heap t)), abortController := Some (length (heap t)),
           heap := heap t @ [\<lparr>es_closed = False, aborted = False, promise = Pending, thens = []\<rparr>]\<rparr>,
         [NewEventSource (length (heap t)) (href (url t))
            (case eventSourceInit t of Some c \<Rightarrow> CallerInit c | None \<Rightarrow> CommonHeadersFetch)]) \<and>
      (\<forall>P evs e.
         start (fst (dispatch_all P (fst (snd (start t))) evs e))
           = (Inl AlreadyStarted, fst (dispatch_all P (fst (snd (start t))) evs e), []) \<and>
         start (fst (close (fst (dispatch_all P (fst (snd (start t))) evs e))))
           = (Inl AlreadyStarted, fst (close (fst (dispatch_all P (fst (snd (start t))) evs e))), []))) \<and>
   (eventSource t \<noteq> None \<longrightarrow> start t = (Inl AlreadyStarted, t, []))"
proof -
  have guard: "start t' = (Inl AlreadyStarted, t', [])" if "eventSource t' \<noteq> None" for t'
    using that by (auto simp: start_def)
  have first: "eventSource (fst (snd (start t))) \<noteq> None" if "eventSource t = None"
    using that by (simp add: start_def case_prod_beta)
  have later: "eventSource (fst (dispatch_all P (fst (snd (start t))) evs e)) \<noteq> None"
    if "eventSource t = None" for P evs e
    using first [OF that] by (rule dispatch_all_keeps_started)
  have closed: "eventSource (fst (close (fst (dispatch_all P (fst (snd (start t))) evs e)))) \<noteq> None"
    if "eventSource t = None" for P evs e
    using later [OF that] by simp
  have opens: "start t =
        (Inr (length (heap t)),
         t\<lparr>eventSource := Some (length (heap t)), abortController := Some (length (heap t)),
           heap := heap t @ [\<lparr>es_closed = False, aborted = False, promise = Pending, thens = []\<rparr>]\<rparr>,
         [NewEventSource (length (heap t)) (href (url t))
            (case eventSourceInit t of Some c \<Rightarrow> CallerInit c | None \<Rightarrow> CommonHeadersFetch)])"
    if "eventSource t = None"
    using that by (simp add: start_def startOrAuth_def Let_def)
  show ?thesis
    using opens guard [OF later] guard [OF closed] guard [of t] by blast
qed

text \<open>The theorem at the idle transport and at the started one.\<close>

theorem start_guard_witness:
  "eventSource ex_idle = None \<and>
   start ex_idle
     = (Inr 0, ex_started, [NewEventSource 0 ''https://example.com/sse'' CommonHeadersFetch]) \<and>
   eventSource ex_started \<noteq> None \<and>
   start ex_started = (Inl AlreadyStarted, ex_started, []) \<and>
   start (fst (dispatch_all ex_platform ex_started [(0, EndpointEvent ''/messages'')] ex_env))
     = (Inl AlreadyStarted, ex_open, []) \<and>
   start (fst (close ex_open)) = (Inl AlreadyStarted, fst (close ex_open), [])"
  using start_guard [of ex_idle] start_guard [of ex_started]
  by (simp add: ex_started_def [symmetric])
     (simp add: ex_open_eq ex_started_eq ex_idle_eq ex_addresses start_def
        startOrAuth_def dispatch_def on_endpoint_def resolve_def)

subsection \<open>Message events\<close>

lemma on_message_all:
  "map (parse_message P) ds = map Inr ms \<Longrightarrow> concat (map (on_message P) ds) = map OnMessage ms"
  by (induction ds arbitrary: ms) (auto simp: on_message_def)

lemma dispatch_all_messages:
  "k < length (heap t) \<Longrightarrow>
   dispatch_all P t (map (\<lambda>d. (k, MessageEvent d)) ds) e = (t, concat (map (on_message P) ds), e)"
  by (induction ds) (simp_all add: dispatch_def)

text \<open>
  C7: the EventSource \<open>k\<close> delivers message events of which one does not decode and
  all the others do. The error callback runs once, with the decoder's error, at the
  place of the malformed event; the message callback runs for every other event, in
  the order of arrival; the transport is as it was before (nothing is closed and no
  promise settles).
\<close>

theorem malformed_message_dropped:
  assumes "k < length (heap t)"
    and "map (parse_message P) ds1 = map Inr ms1"
    and "parse_message P bad = Inl err"
    and "map (parse_message P) ds2 = map Inr ms2"
  shows "dispatch_all P t (map (\<lambda>d. (k, MessageEvent d)) (ds1 @ [bad] @ ds2)) e
           = (t, map OnMessage ms1 @ [OnError err] @ map OnMessage ms2, e)"
proof -
  have "dispatch_all P t (map (\<lambda>d. (k, MessageEvent d)) (ds1 @ [bad] @ ds2)) e
          = (t, concat (map (on_message P) (ds1 @ [bad] @ ds2)), e)"
    using assms(1) by (rule dispatch_all_messages)
  moreover have "concat (map (on_message P) (ds1 @ [bad] @ ds2))
          = map OnMessage ms1 @ [OnError err] @ map OnMessage ms2"
    using assms(2-4) by (simp add: on_message_all) (simp add: on_message_def)
  ultimately show ?thesis by simp
qed

text \<open>The theorem on four events, the third of them a truncated text.\<close>

theorem malformed_message_dropped_witness:
  "map (parse_message ex_platform) [ex_notification ''initialized'', ex_notification ''ping'']
     = map Inr [JSONRPCMessage (ex_notification ''initialized''),
                JSONRPCMessage (ex_notification ''ping'')] \<and>
   parse_message ex_platform ''{'' = Inl (Thrown ''SyntaxError'') \<and>
   map (parse_message ex_platform) [ex_notification ''tools/list'']
     = map Inr [JSONRPCMessage (ex_notification ''tools/list'')] \<and>
   dispatch_all ex_platform ex_open
     [(0, MessageEvent (ex_notification ''initialized'')), (0, MessageEvent (ex_notification ''ping'')),
      (0, MessageEvent ''{''), (0, MessageEvent (ex_notification ''tools/list''))]
     ex_env
     = (ex_open,
        [OnMessage (JSONRPCMessage (ex_notification ''initialized'')),
         OnMessage (JSONRPCMessage (ex_notification ''ping'')),
         OnError (Thrown ''SyntaxError''),
         OnMessage (JSONRPCMessage (ex_notification ''tools/list''))],
        ex_env)"
proof -
  have h1: "0 < length (heap ex_open)"
    by (simp add: ex_open_eq)
  have h2: "map (parse_message ex_platform) [ex_notification ''initialized'', ex_notification ''ping'']
     = map Inr [JSONRPCMessage (ex_notification ''initialized''),
                JSONRPCMessage (ex_notification ''ping'')]"
    and h3: "parse_message ex_platform ''{'' = Inl (Thrown ''SyntaxError'')"
    and h4: "map (parse_message ex_platform) [ex_notification ''tools/list'']
     = map Inr [JSONRPCMessage (ex_notification ''tools/list'')]"
    by (simp_all add: ex_messages)
  from malformed_message_dropped [OF h1 h2 h3 h4, of ex_env] h2 h3 h4 show ?thesis
    by simp
qed

subsection \<open>Failures of the authentication retry\<close>

lemma commonHeaders_returns:
  "authProvider t = Some p \<Longrightarrow> tokens_script e = Returns tok # ts \<Longrightarrow>
   commonHeaders t e =
     (Some (Returns (case tok of None \<Rightarrow> [] | Some a \<Rightarrow> [(''Authorization'', ''Bearer '' @ a)])),
      [CallTokens], e\<lparr>tokens_script := ts\<rparr>)"
  by (simp add: commonHeaders_def split: option.splits)

lemma commonHeaders_no_provider:
  "authProvider t = None \<Longrightarrow> commonHeaders t e = (Some (Returns []), [], e)"
  by (simp add: commonHeaders_def)



subsection \<open>The headers of a POST\<close>




lemma spread_keys: "fst ` set (spread a b) = fst ` set a \<union> fst ` set b"
  unfolding spread_def
proof (induction b arbitrary: a)
  case Nil
  show ?case by simp
next
  case (Cons x b)
  obtain k v where x: "x = (k, v)" by (cases x)
  show ?case
    by (simp add: x Cons.IH AList.dom_update)
qed

lemma headers_append_new:
  "headers_append h k v = Inr h' \<Longrightarrow> map_of h (lower k) = None \<Longrightarrow>
   h' = h @ [(lower k, normalize_value v)]"
  by (simp add: headers_append_def Let_def split: if_splits)

lemma headers_append_keys:
  "headers_append h k v = Inr h' \<Longrightarrow> fst ` set h' \<subseteq> insert (lower k) (fst ` set h)"
proof -
  assume app: "headers_append h k v = Inr h'"
  show ?thesis
  proof (cases "map_of h (lower k)")
    case None
    with app have "h' = h @ [(lower k, normalize_value v)]"
      by (simp add: headers_append_new)
    then show ?thesis by auto
  next
    case (Some old)
    with app have "h' = AList.update (lower k) (old @ '', '' @ normalize_value v) h"
      by (simp add: headers_append_def Let_def split: if_splits)
    then have "fst ` set h' = insert (lower k) (fst ` set h)"
      by (simp add: AList.dom_update)
    then show ?thesis by simp
  qed
qed


lemma fill_headers_keys:
  "fill_headers M h = Inr H \<Longrightarrow> fst ` set H \<subseteq> fst ` set h \<union> lower ` fst ` set M"
proof (induction M arbitrary: h)
  case Nil
  then show ?case by simp
next
  case (Cons x M)
  obtain k v where x: "x = (k, v)" by (cases x)
  from Cons.prems obtain h' where app: "headers_append h k v = Inr h'"
      and rest: "fill_headers M h' = Inr H"
    by (auto simp: x split: sum.splits)
  from Cons.IH [OF rest] headers_append_keys [OF app] show ?case
    by (auto simp: x)
qed


lemma lower_content_type [simp]: "lower ''content-type'' = ''content-type''"
  by (simp add: lower_def lower_char_def)

lemma request_headers_Inr:
  "request_headers t common = Inr headers \<Longrightarrow>
   \<exists>H. new_Headers (spread common (caller_entries t)) = Inr H \<and>
       headers = AList.update ''content-type'' ''application/json'' H"
  by (auto simp: request_headers_def content_type_set split: sum.splits)

lemma content_type_get:
  "headers_get (AList.update ''content-type'' ''application/json'' H) k
     = (if lower k = ''content-type'' then Some ''application/json'' else headers_get H k)"
  by (simp add: headers_get_def AList.update_conv')

lemma send_first_post:
  assumes "endpoint t = Some ep" and "commonHeaders t e = (Some (Returns common), fx, e')"
    and "request_headers t common = Inr headers"
  shows "take (Suc (length fx)) (fst (snd (send P t m e)))
           = fx @ [Fetch (href ep) (post_init P t headers m)]"
  using assms
  by (simp add: send.simps [of P t m e] Let_def case_prod_beta
      split: list.splits outcome.splits)




subsection \<open>A provider without a token\<close>

lemma update_entries: "set (AList.update k v a) \<subseteq> insert (k, v) (set a)"
  by (induction a) auto

lemma spread_entries: "set (spread a b) \<subseteq> set a \<union> set b"
  unfolding spread_def
proof (induction b arbitrary: a)
  case Nil
  show ?case by simp
next
  case (Cons x b)
  obtain k v where x: "x = (k, v)" by (cases x)
  from Cons.IH [of "AList.update k v a"] update_entries [of k v a] show ?case
    by (auto simp: x)
qed

lemma fill_headers_valid:
  "\<forall>(k, v)\<in>set M. valid_name k \<and> valid_value (normalize_value v) \<Longrightarrow>
   \<exists>H. fill_headers M h = Inr H"
proof (induction M arbitrary: h)
  case Nil
  show ?case by simp
next
  case (Cons x M)
  obtain k v where x: "x = (k, v)" by (cases x)
  from Cons.prems have "valid_name k \<and> valid_value (normalize_value v)"
    by (simp add: x)
  then obtain h' where "headers_append h k v = Inr h'"
    by (simp add: headers_append_def Let_def)
  moreover from Cons.prems have "\<exists>H. fill_headers M h' = Inr H"
    by (intro Cons.IH) simp
  ultimately show ?case
    by (simp add: x)
qed

lemma request_headers_valid:
  assumes "\<forall>(k, v)\<in>set (common @ caller_entries t). valid_name k \<and> valid_value (normalize_value v)"
  shows "\<exists>headers. request_headers t common = Inr headers"
proof -
  have "\<forall>(k, v)\<in>set (spread common (caller_entries t)).
      valid_name k \<and> valid_value (normalize_value v)"
    using assms spread_entries [of common "caller_entries t"] by auto
  from fill_headers_valid [OF this, of "[]"] show ?thesis
    by (auto simp: request_headers_def new_Headers_def content_type_set)
qed

text \<open>
  C10: a provider is configured and \<^verbatim>\<open>tokens()\<close> returns nothing. Then
  \<^verbatim>\<open>_commonHeaders\<close> returns the empty object, and
  \<^item> the \<^verbatim>\<open>fetch\<close> that the transport gives the EventSource (which it does when the
    caller gave no \<^verbatim>\<open>eventSourceInit\<close>) issues the request, with no header at all;
  \<^item> \<^verbatim>\<open>send\<close> builds the headers it would build without a provider, which it can
    whenever the caller's header names and values are valid; with these headers it
    issues its POST: unless the caller gave one, no \<^verbatim>\<open>Authorization\<close> header.
\<close>

theorem no_token_no_authorization:
  assumes "authProvider t = Some p" and "tokens_script e = Returns None # ts"
  shows "commonHeaders t e = (Some (Returns []), [CallTokens], e\<lparr>tokens_script := ts\<rparr>) \<and>
         default_fetch t u init e
           = ([CallTokens, Fetch u (init\<lparr>fi_headers := PlainObject []\<rparr>)],
              e\<lparr>tokens_script := ts\<rparr>) \<and>
         (eventSourceInit t = None \<longrightarrow>
            snd (snd (startOrAuth t))
              = [NewEventSource (length (heap t)) (href (url t)) CommonHeadersFetch]) \<and>
         request_headers t [] = request_headers (t\<lparr>authProvider := None\<rparr>) [] \<and>
         ((\<forall>(k, v)\<in>set (caller_entries t). valid_name k \<and> valid_value (normalize_value v)) \<longrightarrow>
            (\<exists>headers. request_headers t [] = Inr headers)) \<and>
         (\<forall>ep headers. endpoint t = Some ep \<and> request_headers t [] = Inr headers \<longrightarrow>
            take 2 (fst (snd (send P t m e)))
              = [CallTokens, Fetch (href ep) (post_init P t headers m)] \<and>
            post_init P t headers m = post_init P (t\<lparr>authProvider := None\<rparr>) headers m \<and>
            fi_headers (post_init P t headers m) = HeadersObject headers \<and>
            (''authorization'' \<notin> lower ` fst ` set (caller_entries t) \<longrightarrow>
               headers_get headers ''Authorization'' = None))"
proof -
  have ch: "commonHeaders t e = (Some (Returns []), [CallTokens], e\<lparr>tokens_script := ts\<rparr>)"
    using assms by (simp add: commonHeaders_def)
  have df: "default_fetch t u init e
      = ([CallTokens, Fetch u (init\<lparr>fi_headers := PlainObject []\<rparr>)], e\<lparr>tokens_script := ts\<rparr>)"
    by (simp add: default_fetch_def ch)
  have es: "eventSourceInit t = None \<longrightarrow>
      snd (snd (startOrAuth t))
        = [NewEventSource (length (heap t)) (href (url t)) CommonHeadersFetch]"
    by simp
  have rh: "request_headers t [] = request_headers (t\<lparr>authProvider := None\<rparr>) []"
    by (simp add: request_headers_def caller_entries_def)
  have valid: "(\<forall>(k, v)\<in>set (caller_entries t). valid_name k \<and> valid_value (normalize_value v)) \<longrightarrow>
      (\<exists>headers. request_headers t [] = Inr headers)"
    using request_headers_valid [of "[]" t] by simp
  have post: "take 2 (fst (snd (send P t m e)))
      = [CallTokens, Fetch (href ep) (post_init P t headers m)]"
    if "endpoint t = Some ep" "request_headers t [] = Inr headers" for ep headers
    using send_first_post [OF that(1) ch that(2), of P m] by (simp add: numeral_2_eq_2)
  have same: "post_init P t headers m = post_init P (t\<lparr>authProvider := None\<rparr>) headers m"
    for headers
    by (simp add: post_init_def)
  have init: "fi_headers (post_init P t headers m) = HeadersObject headers" for headers
    by (simp add: post_init_def)
  have noauth: "headers_get headers ''Authorization'' = None"
    if "request_headers t [] = Inr headers"
      "''authorization'' \<notin> lower ` fst ` set (caller_entries t)" for headers
  proof -
    from request_headers_Inr [OF that(1)] obtain H
      where H: "new_Headers (spread [] (caller_entries t)) = Inr H"
        and headers: "headers = AList.update ''content-type'' ''application/json'' H"
      by auto
    have "fst ` set H \<subseteq> lower ` fst ` set (caller_entries t)"
      using fill_headers_keys [of "spread [] (caller_entries t)" "[]" H] H
      by (simp add: new_Headers_def spread_keys)
    with that(2) have "''authorization'' \<notin> fst ` set H"
      by auto
    then have "map_of H ''authorization'' = None"
      by (simp add: map_of_eq_None_iff)
    then show ?thesis
      by (simp add: headers content_type_get) (simp add: headers_get_def lower_def lower_char_def)
  qed
  have send_part: "\<forall>ep headers. endpoint t = Some ep \<and> request_headers t [] = Inr headers \<longrightarrow>
            take 2 (fst (snd (send P t m e)))
              = [CallTokens, Fetch (href ep) (post_init P t headers m)] \<and>
            post_init P t headers m = post_init P (t\<lparr>authProvider := None\<rparr>) headers m \<and>
            fi_headers (post_init P t headers m) = HeadersObject headers \<and>
            (''authorization'' \<notin> lower ` fst ` set (caller_entries t) \<longrightarrow>
               headers_get headers ''Authorization'' = None)"
    using post same init noauth by blast
  from ch df es rh valid send_part show ?thesis
    by (intro conjI)
qed

text \<open>The theorem at the open transport, with the header the EventSource itself
  asks for: the transport's \<^verbatim>\<open>fetch\<close> replaces the headers by the empty object.\<close>

theorem no_token_no_authorization_witness:
  "authProvider ex_open = Some ''provider'' \<and>
   eventSourceInit ex_open = None \<and>
   endpoint ex_open
     = Some \<lparr>href = ''https://example.com/messages'', origin = ''https://example.com''\<rparr> \<and>
   default_fetch ex_open ''https://example.com/sse''
       \<lparr>fi_method = None, fi_headers = PlainObject [(''Accept'', ''text/event-stream'')],
         fi_body = None, fi_signal = None, fi_other = []\<rparr>
       (ex_env\<lparr>tokens_script := [Returns None]\<rparr>)
     = ([CallTokens,
         Fetch ''https://example.com/sse''
           \<lparr>fi_method = None, fi_headers = PlainObject [], fi_body = None, fi_signal = None,
             fi_other = []\<rparr>],
        ex_env\<lparr>tokens_script := []\<rparr>) \<and>
   request_headers ex_open []
     = Inr [(''x-trace'', ''1''), (''content-type'', ''application/json'')] \<and>
   take 2 (fst (snd (send ex_platform ex_open ex_ping (ex_env\<lparr>tokens_script := [Returns None]\<rparr>))))
     = [CallTokens,
        Fetch ''https://example.com/messages''
          (post_init ex_platform ex_open
             [(''x-trace'', ''1''), (''content-type'', ''application/json'')] ex_ping)] \<and>
   headers_get [(''x-trace'', ''1''), (''content-type'', ''application/json'')] ''Authorization'' = None"
proof -
  let ?e = "ex_env\<lparr>tokens_script := [Returns None]\<rparr>"
  let ?ep = "\<lparr>href = ''https://example.com/messages'', origin = ''https://example.com''\<rparr>"
  let ?headers = "[(''x-trace'', ''1''), (''content-type'', ''application/json'')]"
  have h1: "authProvider ex_open = Some ''provider''"
    by (simp add: ex_open_sel)
  have h2: "tokens_script ?e = Returns None # []"
    by simp
  have h3: "eventSourceInit ex_open = None" "endpoint ex_open = Some ?ep"
    by (simp_all add: ex_open_eq ex_idle_eq)
  have h4: "request_headers ex_open [] = Inr ?headers"
    by (simp add: ex_request_headers)
  have h5: "endpoint ex_open = Some ?ep \<and> request_headers ex_open [] = Inr ?headers"
    using h3(2) h4 by simp
  have h6: "''authorization'' \<notin> lower ` fst ` set (caller_entries ex_open)"
    by (simp add: caller_entries_def own_entries_def ex_open_eq ex_idle_eq lower_def lower_char_def)
  note th = no_token_no_authorization [OF h1 h2, of "''https://example.com/sse''" _ ex_platform ex_ping]
  have c1: "default_fetch ex_open ''https://example.com/sse''
       \<lparr>fi_method = None, fi_headers = PlainObject [(''Accept'', ''text/event-stream'')],
         fi_body = None, fi_signal = None, fi_other = []\<rparr> ?e
     = ([CallTokens,
         Fetch ''https://example.com/sse''
           \<lparr>fi_method = None, fi_headers = PlainObject [], fi_body = None, fi_signal = None,
             fi_other = []\<rparr>],
        ex_env\<lparr>tokens_script := []\<rparr>)"
    using th [THEN conjunct2, THEN conjunct1] by simp
  note sp = th [THEN conjunct2, THEN conjunct2, THEN conjunct2, THEN conjunct2, THEN conjunct2,
      THEN spec, THEN spec, THEN mp, OF h5]
  have c2: "take 2 (fst (snd (send ex_platform ex_open ex_ping ?e)))
     = [CallTokens,
        Fetch ''https://example.com/messages'' (post_init ex_platform ex_open ?headers ex_ping)]"
    using sp [THEN conjunct1] by simp
  have c3: "headers_get ?headers ''Authorization'' = None"
    using sp [THEN conjunct2, THEN conjunct2, THEN conjunct2, THEN mp, OF h6] .
  show ?thesis
    using h1 h3 c1 h4 c2 c3 by (simp only: simp_thms)
qed

subsection \<open>The POST answered with 401\<close>

text \<open>
  C1, as stated, fails. The resend is a call of \<^verbatim>\<open>send\<close> like any other, and nothing
  counts the resends: when the second POST is answered with 401 as well and the auth
  collaborator answers AUTHORIZED again, the message is posted a third time. Here
  the answers are 401, 401, 204: one call of \<^verbatim>\<open>send\<close> issues three POSTs, all with
  the same body, and resolves.
\<close>

theorem send_resend_counterexample:
  "fetch_script ex_env_twice
     = [Returns \<lparr>status = 401, body_text = None\<rparr>,
        Returns \<lparr>status = 401, body_text = None\<rparr>,
        Returns \<lparr>status = 204, body_text = Some []\<rparr>] \<and>
   auth_script ex_env_twice = [Returns AUTHORIZED, Returns AUTHORIZED] \<and>
   send ex_platform ex_open ex_ping ex_env_twice
     = (Resolved,
        [CallTokens,
         Fetch ''https://example.com/messages''
           (post_init ex_platform ex_open
              [(''authorization'', ''Bearer t1''), (''x-trace'', ''1''),
               (''content-type'', ''application/json'')] ex_ping),
         CallAuth ex_url,
         CallTokens,
         Fetch ''https://example.com/messages''
           (post_init ex_platform ex_open
              [(''authorization'', ''Bearer t2''), (''x-trace'', ''1''),
               (''content-type'', ''application/json'')] ex_ping),
         CallAuth ex_url,
         CallTokens,
         Fetch ''https://example.com/messages''
           (post_init ex_platform ex_open
              [(''authorization'', ''Bearer t3''), (''x-trace'', ''1''),
               (''content-type'', ''application/json'')] ex_ping)],
        \<lparr>tokens_script = [], auth_script = [], fetch_script = []\<rparr>) \<and>
   (\<lambda>headers. fi_body (post_init ex_platform ex_open headers ex_ping))
     = (\<lambda>headers. Some (ex_notification ''ping''))"
proof -
  let ?ok = "Returns \<lparr>status = 204, body_text = Some []\<rparr>"
  let ?no = "Returns \<lparr>status = 401, body_text = None\<rparr>"
  let ?h = "\<lambda>a. [(''authorization'', ''Bearer '' @ a), (''x-trace'', ''1''),
                 (''content-type'', ''application/json'')]"
  let ?post = "\<lambda>a. Fetch ''https://example.com/messages''
                    (post_init ex_platform ex_open (?h a) ex_ping)"
  have scripts: "fetch_script ex_env_twice = [?no, ?no, ?ok]"
      "auth_script ex_env_twice = [Returns AUTHORIZED, Returns AUTHORIZED]"
    by (simp_all add: ex_env_twice_def)
  have third: "send ex_platform ex_open ex_ping
        \<lparr>tokens_script = [Returns (Some ''t3'')], auth_script = [], fetch_script = [?ok]\<rparr>
      = (Resolved, [CallTokens, ?post ''t3''],
         \<lparr>tokens_script = [], auth_script = [], fetch_script = []\<rparr>)"
    by (subst send.simps)
      (simp add: ex_open_sel ex_request_headers commonHeaders_def ok_def)
  have second: "send ex_platform ex_open ex_ping
        \<lparr>tokens_script = [Returns (Some ''t2''), Returns (Some ''t3'')],
          auth_script = [Returns AUTHORIZED], fetch_script = [?no, ?ok]\<rparr>
      = (Resolved, [CallTokens, ?post ''t2'', CallAuth ex_url, CallTokens, ?post ''t3''],
         \<lparr>tokens_script = [], auth_script = [], fetch_script = []\<rparr>)"
    by (subst send.simps)
      (simp add: ex_open_sel ex_request_headers commonHeaders_def ok_def third)
  have first: "send ex_platform ex_open ex_ping ex_env_twice
      = (Resolved,
         [CallTokens, ?post ''t1'', CallAuth ex_url, CallTokens, ?post ''t2'', CallAuth ex_url,
          CallTokens, ?post ''t3''],
         \<lparr>tokens_script = [], auth_script = [], fetch_script = []\<rparr>)"
    unfolding ex_env_twice_def
    by (subst send.simps)
      (simp add: ex_open_sel ex_request_headers commonHeaders_def ok_def second)
  have body: "(\<lambda>headers. fi_body (post_init ex_platform ex_open headers ex_ping))
      = (\<lambda>headers. Some (ex_notification ''ping''))"
    by (simp add: post_init_def ex_messages)
  show ?thesis
    using scripts first body by simp
qed

text \<open>
  C1, amended: the POST of \<^verbatim>\<open>send(m)\<close> is answered with status 401, a provider is
  configured and the auth collaborator answers AUTHORIZED. Then \<^verbatim>\<open>send(m)\<close> goes on as
  one more \<^verbatim>\<open>send(m)\<close>, with the same message on the same transport: its outcome is the
  outcome of that call, its effects are the first POST, the call of the collaborator
  and then the effects of that call, whatever they are. When the second POST is
  answered with a status from 200 to 299, the call resolves; there are exactly two
  POSTs, to the same address and with the same body (the serialized \<open>m\<close>), and no call
  of the error callback. (\<open>headers\<close> and \<open>headers'\<close> are the headers built for the two
  requests, from the token the provider has at each.)
\<close>

theorem send_401_resend:
  assumes "endpoint t = Some ep" and "authProvider t = Some p"
    and "tokens_script e = Returns tok # ts"
    and "request_headers t (case tok of None \<Rightarrow> [] | Some a \<Rightarrow> [(''Authorization'', ''Bearer '' @ a)])
           = Inr headers"
    and "fetch_script e = Returns resp # rs" and "status resp = 401"
    and "auth_script e = Returns AUTHORIZED # as"
  shows
    "(let post = (\<lambda>hs. Fetch (href ep) (post_init P t hs m));
          resend = send P t m (e\<lparr>tokens_script := ts, fetch_script := rs, auth_script := as\<rparr>)
      in send P t m e
           = (fst resend, [CallTokens, post headers, CallAuth (url t)] @ fst (snd resend),
              snd (snd resend)) \<and>
         (\<forall>tok' ts' headers' resp' rs'.
            ts = Returns tok' # ts' \<and>
            request_headers t
              (case tok' of None \<Rightarrow> [] | Some a \<Rightarrow> [(''Authorization'', ''Bearer '' @ a)])
              = Inr headers' \<and>
            rs = Returns resp' # rs' \<and> ok resp' \<longrightarrow>
            send P t m e
              = (Resolved,
                 [CallTokens, post headers, CallAuth (url t), CallTokens, post headers'],
                 e\<lparr>tokens_script := ts', fetch_script := rs', auth_script := as\<rparr>) \<and>
            (\<exists>i i'. post headers = Fetch (href ep) i \<and> post headers' = Fetch (href ep) i' \<and>
                    fi_body i = Some (stringify P m) \<and> fi_body i' = Some (stringify P m))))"
proof -
  let ?hs = "\<lambda>tk. case tk of None \<Rightarrow> [] | Some a \<Rightarrow> [(''Authorization'', ''Bearer '' @ a)]"
  let ?e' = "e\<lparr>tokens_script := ts, fetch_script := rs, auth_script := as\<rparr>"
  have nok: "\<not> ok resp"
    using assms(6) by (simp add: ok_def)
  have first: "send P t m e
      = (fst (send P t m ?e'),
         [CallTokens, Fetch (href ep) (post_init P t headers m), CallAuth (url t)]
           @ fst (snd (send P t m ?e')),
         snd (snd (send P t m ?e')))"
    using assms nok
    by (simp add: send.simps [of P t m e] commonHeaders_returns case_prod_beta)
  have second: "send P t m ?e'
      = (Resolved, [CallTokens, Fetch (href ep) (post_init P t headers' m)],
         e\<lparr>tokens_script := ts', fetch_script := rs', auth_script := as\<rparr>)"
    if "ts = Returns tok' # ts'" "request_headers t (?hs tok') = Inr headers'"
      "rs = Returns resp' # rs'" "ok resp'" for tok' ts' headers' resp' rs'
  proof -
    have "commonHeaders t ?e'
        = (Some (Returns (?hs tok')), [CallTokens],
           e\<lparr>tokens_script := ts', fetch_script := rs, auth_script := as\<rparr>)"
      using assms(2) that(1) by (simp add: commonHeaders_def split: option.splits)
    then show ?thesis
      using assms(1) that(2,3,4) by (subst send.simps) simp
  qed
  have body: "fi_body (post_init P t hs m) = Some (stringify P m)" for hs
    by (simp add: post_init_def)
  show ?thesis
    unfolding Let_def
    using first second body by auto
qed

text \<open>The theorem at the open transport: 401, AUTHORIZED, then 200. The second POST
  carries the token the provider has by then.\<close>

theorem send_401_resend_witness:
  "endpoint ex_open
     = Some \<lparr>href = ''https://example.com/messages'', origin = ''https://example.com''\<rparr> \<and>
   authProvider ex_open = Some ''provider'' \<and>
   fetch_script ex_env
     = [Returns \<lparr>status = 401, body_text = None\<rparr>,
        Returns \<lparr>status = 200, body_text = Some ''accepted''\<rparr>] \<and>
   auth_script ex_env = [Returns AUTHORIZED] \<and>
   send ex_platform ex_open ex_ping ex_env
     = (Resolved,
        [CallTokens,
         Fetch ''https://example.com/messages''
           (post_init ex_platform ex_open
              [(''authorization'', ''Bearer t1''), (''x-trace'', ''1''),
               (''content-type'', ''application/json'')] ex_ping),
         CallAuth ex_url,
         CallTokens,
         Fetch ''https://example.com/messages''
           (post_init ex_platform ex_open
              [(''authorization'', ''Bearer t2''), (''x-trace'', ''1''),
               (''content-type'', ''application/json'')] ex_ping)],
        \<lparr>tokens_script = [], auth_script = [], fetch_script = []\<rparr>) \<and>
   (\<lambda>headers. fi_body (post_init ex_platform ex_open headers ex_ping))
     = (\<lambda>headers. Some (ex_notification ''ping''))"
proof -
  let ?ep = "\<lparr>href = ''https://example.com/messages'', origin = ''https://example.com''\<rparr>"
  let ?h = "\<lambda>a. [(''authorization'', ''Bearer '' @ a), (''x-trace'', ''1''),
                 (''content-type'', ''application/json'')]"
  have h1: "endpoint ex_open = Some ?ep" and h2: "authProvider ex_open = Some ''provider''"
    by (simp_all add: ex_open_sel)
  have h3: "tokens_script ex_env = Returns (Some ''t1'') # [Returns (Some ''t2'')]"
    and h5: "fetch_script ex_env = Returns \<lparr>status = 401, body_text = None\<rparr>
               # [Returns \<lparr>status = 200, body_text = Some ''accepted''\<rparr>]"
    and h6: "status \<lparr>status = 401, body_text = None\<rparr> = 401"
    and h7: "auth_script ex_env = Returns AUTHORIZED # []"
    by (simp_all add: ex_env_def)
  have h4: "request_headers ex_open
        (case Some ''t1'' of None \<Rightarrow> [] | Some a \<Rightarrow> [(''Authorization'', ''Bearer '' @ a)])
      = Inr (?h ''t1'')"
    by (simp add: ex_request_headers)
  have h8: "[Returns (Some ''t2'')] = Returns (Some ''t2'') # [] \<and>
      request_headers ex_open
        (case Some ''t2'' of None \<Rightarrow> [] | Some a \<Rightarrow> [(''Authorization'', ''Bearer '' @ a)])
        = Inr (?h ''t2'') \<and>
      [Returns \<lparr>status = 200, body_text = Some ''accepted''\<rparr>]
        = Returns \<lparr>status = 200, body_text = Some ''accepted''\<rparr> # [] \<and>
      ok \<lparr>status = 200, body_text = Some ''accepted''\<rparr>"
    by (simp add: ex_request_headers ok_def)
  have c: "send ex_platform ex_open ex_ping ex_env
     = (Resolved,
        [CallTokens,
         Fetch ''https://example.com/messages'' (post_init ex_platform ex_open (?h ''t1'') ex_ping),
         CallAuth ex_url,
         CallTokens,
         Fetch ''https://example.com/messages'' (post_init ex_platform ex_open (?h ''t2'') ex_ping)],
        \<lparr>tokens_script = [], auth_script = [], fetch_script = []\<rparr>)"
    using send_401_resend [OF h1 h2 h3 h4 h5 h6 h7, of ex_platform ex_ping, unfolded Let_def,
        THEN conjunct2, THEN spec, THEN spec, THEN spec, THEN spec, THEN spec, THEN mp, OF h8,
        THEN conjunct1]
    by (simp add: ex_open_sel ex_env_def)
  have b: "(\<lambda>headers. fi_body (post_init ex_platform ex_open headers ex_ping))
      = (\<lambda>headers. Some (ex_notification ''ping''))"
    by (simp add: post_init_def ex_messages)
  show ?thesis
    using h1 h2 h5 h7 c b by simp
qed

end
